theory Spec2Isabelle
  imports Complex_Main "HOL-Library.Sublist"
begin

section \<open>Python values\<close>

text \<open>
  The dashboard consumes decoded JSON documents. A decoded document is a Python value:
  \<open>None\<close> (JSON null), a bool, a number, a str, a list or a dict. A dict is kept as
  an association list in insertion order; a Python dict holds each key once. Numbers
  are mathematical reals: the program never tells an int from a float, and float
  rounding is not modelled. Strings are lists of characters.
\<close>

datatype json =
    JNull
  | JBool bool
  | JNum real
  | JStr string
  | JList "json list"
  | JObj "(string \<times> json) list"

text \<open>
  The exceptions the modelled code can raise. Every handler of the program is
  \<open>except Exception\<close>, so the kind is informative only.
\<close>

datatype error = AttributeError | TypeError | JSONDecodeError | IndexError

text \<open>\<open>d.get(k, dflt)\<close> on a dict.\<close>

definition dict_get :: "(string \<times> json) list \<Rightarrow> string \<Rightarrow> json \<Rightarrow> json" where
  "dict_get d k dflt = (case map_of d k of None \<Rightarrow> dflt | Some v \<Rightarrow> v)"

text \<open>\<open>x.get(k, dflt)\<close> on any value: only a dict has the method.\<close>

fun py_get :: "json \<Rightarrow> string \<Rightarrow> json \<Rightarrow> error + json" where
  "py_get (JObj d) k dflt = Inr (dict_get d k dflt)"
| "py_get _ k dflt = Inl AttributeError"

text \<open>\<open>x.items()\<close>: only a dict has the method.\<close>

fun py_items :: "json \<Rightarrow> error + (string \<times> json) list" where
  "py_items (JObj d) = Inr d"
| "py_items _ = Inl AttributeError"

text \<open>\<open>for p in x\<close>: a list yields its elements, a str its characters, a dict its keys;
  nothing else is iterable.\<close>

fun py_iter :: "json \<Rightarrow> error + json list" where
  "py_iter (JList xs) = Inr xs"
| "py_iter (JStr s) = Inr (map (\<lambda>c. JStr [c]) s)"
| "py_iter (JObj d) = Inr (map (\<lambda>kv. JStr (fst kv)) d)"
| "py_iter _ = Inl TypeError"

text \<open>Truth value of a Python object, as \<open>if x\<close> tests it.\<close>

fun truthy :: "json \<Rightarrow> bool" where
  "truthy JNull = False"
| "truthy (JBool b) = b"
| "truthy (JNum x) = (x \<noteq> 0)"
| "truthy (JStr s) = (s \<noteq> [])"
| "truthy (JList xs) = (xs \<noteq> [])"
| "truthy (JObj d) = (d \<noteq> [])"

text \<open>A value that can be a dict key: lists and dicts are unhashable.\<close>

fun hashable :: "json \<Rightarrow> bool" where
  "hashable (JList xs) = False"
| "hashable (JObj d) = False"
| "hashable _ = True"

text \<open>A loop that appends one result per element and is left by the first exception.\<close>

fun map_err :: "('a \<Rightarrow> error + 'b) \<Rightarrow> 'a list \<Rightarrow> error + 'b list" where
  "map_err f [] = Inr []"
| "map_err f (x # xs) =
     (case f x of
        Inl e \<Rightarrow> Inl e
      | Inr y \<Rightarrow> (case map_err f xs of Inl e \<Rightarrow> Inl e | Inr ys \<Rightarrow> Inr (y # ys)))"

section \<open>String helpers\<close>

text \<open>\<open>s.split(c)\<close> for a one-character separator: never empty, \<open>"".split(c) = [""]\<close>.\<close>

fun split_char :: "char \<Rightarrow> string \<Rightarrow> string list" where
  "split_char c [] = [[]]"
| "split_char c (x # xs) =
     (if x = c then [] # split_char c xs
      else (case split_char c xs of
              p # ps \<Rightarrow> (x # p) # ps
            | [] \<Rightarrow> [[x]]))"

text \<open>\<open>s.removeprefix(p)\<close>.\<close>

definition removeprefix :: "string \<Rightarrow> string \<Rightarrow> string" where
  "removeprefix p s = (if prefix p s then drop (length p) s else s)"

text \<open>\<open>str(i)\<close> for a non-negative int, as the f-string \<open>f"#{i}"\<close> formats it.\<close>

definition digit_char :: "nat \<Rightarrow> char" where
  "digit_char d = ''0123456789'' ! d"

fun str_nat :: "nat \<Rightarrow> string" where
  "str_nat n = (if n < 10 then [digit_char n] else str_nat (n div 10) @ [digit_char (n mod 10)])"

declare str_nat.simps [simp del]

section \<open>Model status: \<open>_shorten\<close> and \<open>parse_model_status\<close>\<close>

text \<open>
  \<^verbatim>\<open>
  def _shorten(model_id):
      parts = model_id.split("/")
      if len(parts) == 2:
          provider = parts[0].removeprefix("google-")
          return f"{provider}/{parts[1]}"
      return model_id
  \<close>
\<close>

definition shorten :: "string \<Rightarrow> string" where
  "shorten model_id =
     (case split_char CHR ''/'' model_id of
        [p0, p1] \<Rightarrow> removeprefix ''google-'' p0 @ ''/'' @ p1
      | _ \<Rightarrow> model_id)"

record rotation_entry =
  model :: string
  label :: string
  status :: string
  position :: nat
  entry_alias :: "string option"

record oauth_profile =
  oa_profile_id :: json
  oa_provider :: json
  oa_status :: json
  oa_expires_at :: json
  oa_remaining_ms :: json

text \<open>The dict \<open>parse_model_status\<close> returns; \<open>snapshot_default\<close> is its key \<open>"default"\<close>.\<close>

record snapshot =
  snapshot_default :: json
  rotation :: "rotation_entry list"
  oauth_profiles :: "oauth_profile list"
  aliases :: json
  raw :: json

text \<open>
  \<open>aliases_inv = {v: k for k, v in aliases.items()}\<close>: the pairs in iteration order,
  a later pair overriding an earlier one with the same value; an unhashable value
  raises. The program looks this dict up with strings only, for which Python's key
  equality is equality of strings.
\<close>

definition invert_aliases :: "(string \<times> json) list \<Rightarrow> error + (json \<times> string) list" where
  "invert_aliases items =
     (if list_all (\<lambda>kv. hashable (snd kv)) items
      then Inr (map (\<lambda>kv. (snd kv, fst kv)) items)
      else Inl TypeError)"

definition inv_get :: "(json \<times> string) list \<Rightarrow> string \<Rightarrow> string option" where
  "inv_get aliases_inv m = map_of (rev aliases_inv) (JStr m)"

text \<open>
  The dict appended for position \<open>i\<close> of \<open>enumerate([default] + fallbacks)\<close>.
\<close>

definition rotation_entry_of :: "(json \<times> string) list \<Rightarrow> nat \<Rightarrow> string \<Rightarrow> rotation_entry" where
  "rotation_entry_of aliases_inv i m =
     \<lparr>model = m, label = shorten m,
      status = (if i = 0 then ''ACTIVE'' else ''#'' @ str_nat i),
      position = i, entry_alias = inv_get aliases_inv m\<rparr>"

text \<open>
  The loop over \<open>enumerate([default] + fallbacks)\<close>. \<open>_shorten(model)\<close> calls
  \<open>model.split\<close>, which only a str has.
\<close>

fun rotation_loop :: "(json \<times> string) list \<Rightarrow> nat \<Rightarrow> json list \<Rightarrow> error + rotation_entry list" where
  "rotation_loop aliases_inv i [] = Inr []"
| "rotation_loop aliases_inv i (JStr m # ms) =
     (case rotation_loop aliases_inv (Suc i) ms of
        Inl e \<Rightarrow> Inl e
      | Inr es \<Rightarrow> Inr (rotation_entry_of aliases_inv i m # es))"
| "rotation_loop aliases_inv i (_ # ms) = Inl AttributeError"

fun oauth_entry :: "json \<Rightarrow> error + oauth_profile" where
  "oauth_entry (JObj p) =
     Inr \<lparr>oa_profile_id = dict_get p ''profileId'' (JStr ''''),
          oa_provider = dict_get p ''provider'' (JStr ''''),
          oa_status = dict_get p ''status'' (JStr ''''),
          oa_expires_at = dict_get p ''expiresAt'' JNull,
          oa_remaining_ms = dict_get p ''remainingMs'' (JNum 0)\<rparr>"
| "oauth_entry _ = Inl AttributeError"

text \<open>\<open>raw.get("auth", {}).get("oauth", {}).get("profiles", [])\<close>.\<close>

definition oauth_profiles_raw :: "(string \<times> json) list \<Rightarrow> error + json" where
  "oauth_profiles_raw d =
     (case py_get (dict_get d ''auth'' (JObj [])) ''oauth'' (JObj []) of
        Inl e \<Rightarrow> Inl e
      | Inr oauth \<Rightarrow> py_get oauth ''profiles'' (JList []))"

text \<open>
  \<^verbatim>\<open>
  def parse_model_status(raw: dict) -> dict:
      default = raw.get("defaultModel", "")
      fallbacks = raw.get("fallbacks", [])
      aliases_inv = {v: k for k, v in raw.get("aliases", {}).items()}
      rotation = []
      for i, model in enumerate([default] + fallbacks):
          ...
      oauth_profiles = []
      for p in raw.get("auth", {}).get("oauth", {}).get("profiles", []):
          ...
      return {"default": default, "rotation": rotation, ...}
  \<close>
  \<open>[default] + fallbacks\<close> raises unless \<open>fallbacks\<close> is a list.
\<close>

fun parse_model_status :: "json \<Rightarrow> error + snapshot" where
  "parse_model_status (JObj d) =
     (let dflt = dict_get d ''defaultModel'' (JStr '''');
          fallbacks = dict_get d ''fallbacks'' (JList [])
      in case py_items (dict_get d ''aliases'' (JObj [])) of
           Inl e \<Rightarrow> Inl e
         | Inr items \<Rightarrow>
        (case invert_aliases items of
           Inl e \<Rightarrow> Inl e
         | Inr aliases_inv \<Rightarrow>
        (case fallbacks of
           JList fs \<Rightarrow>
             (case rotation_loop aliases_inv 0 (dflt # fs) of
                Inl e \<Rightarrow> Inl e
              | Inr rot \<Rightarrow>
             (case oauth_profiles_raw d of
                Inl e \<Rightarrow> Inl e
              | Inr ps \<Rightarrow>
             (case py_iter ps of
                Inl e \<Rightarrow> Inl e
              | Inr plist \<Rightarrow>
             (case map_err oauth_entry plist of
                Inl e \<Rightarrow> Inl e
              | Inr oauth \<Rightarrow>
                  Inr \<lparr>snapshot_default = dflt, rotation = rot, oauth_profiles = oauth,
                       aliases = dict_get d ''aliases'' (JObj []), raw = JObj d\<rparr>))))
         | _ \<Rightarrow> Inl TypeError)))"
| "parse_model_status _ = Inl AttributeError"

subsection \<open>Well-typed status documents\<close>

text \<open>
  A status dict is what \<open>openclaw models status --json\<close> prints: every key that
  \<open>parse_model_status\<close> reads is absent or holds a value of its type. The keys
  \<open>aliases\<close> and \<open>auth\<close> are the sections the rotation does not come from.
\<close>

definition opt_key :: "(string \<times> json) list \<Rightarrow> string \<Rightarrow> (json \<Rightarrow> bool) \<Rightarrow> bool" where
  "opt_key d k P = (case map_of d k of None \<Rightarrow> True | Some v \<Rightarrow> P v)"

fun is_str :: "json \<Rightarrow> bool" where
  "is_str (JStr s) = True"
| "is_str _ = False"

fun is_dict :: "json \<Rightarrow> bool" where
  "is_dict (JObj d) = True"
| "is_dict _ = False"

fun is_str_list :: "json \<Rightarrow> bool" where
  "is_str_list (JList xs) = list_all is_str xs"
| "is_str_list _ = False"

fun aliases_ok :: "json \<Rightarrow> bool" where
  "aliases_ok (JObj items) = list_all (\<lambda>kv. hashable (snd kv)) items"
| "aliases_ok _ = False"

fun profiles_ok :: "json \<Rightarrow> bool" where
  "profiles_ok (JList ps) = list_all is_dict ps"
| "profiles_ok _ = False"

fun oauth_ok :: "json \<Rightarrow> bool" where
  "oauth_ok (JObj d) = opt_key d ''profiles'' profiles_ok"
| "oauth_ok _ = False"

fun auth_ok :: "json \<Rightarrow> bool" where
  "auth_ok (JObj d) = opt_key d ''oauth'' oauth_ok"
| "auth_ok _ = False"

definition sections_ok :: "(string \<times> json) list \<Rightarrow> bool" where
  "sections_ok d = (opt_key d ''aliases'' aliases_ok \<and> opt_key d ''auth'' auth_ok)"

definition status_dict :: "(string \<times> json) list \<Rightarrow> bool" where
  "status_dict d =
     (opt_key d ''defaultModel'' is_str \<and> opt_key d ''fallbacks'' is_str_list \<and> sections_ok d)"

text \<open>The number of fallbacks of a dict: the length of the list under \<open>fallbacks\<close>.\<close>

definition fallbacks_count :: "(string \<times> json) list \<Rightarrow> nat" where
  "fallbacks_count d = (case dict_get d ''fallbacks'' (JList []) of JList fs \<Rightarrow> length fs | _ \<Rightarrow> 0)"

text \<open>The sample document of \<open>test_data_layer.py\<close>.\<close>

definition SAMPLE_STATUS :: "(string \<times> json) list" where
  "SAMPLE_STATUS =
     [(''defaultModel'', JStr ''google-gemini-cli/gemini-3-flash''),
      (''fallbacks'', JList [JStr ''google-gemini-cli/gemini-3-pro-preview'',
                             JStr ''groq/llama-3.3-70b-versatile'']),
      (''aliases'', JObj [(''gemini-flash'', JStr ''google-gemini-cli/gemini-3-flash'')]),
      (''auth'', JObj [(''oauth'', JObj [(''profiles'', JList [JObj
          [(''profileId'', JStr ''google-gemini-cli:bob''),
           (''provider'', JStr ''google-gemini-cli''),
           (''status'', JStr ''ok''),
           (''expiresAt'', JNum 9999999999000),
           (''remainingMs'', JNum 3600000)]])]),
        (''providers'', JList [])]),
      (''allowed'', JList [JStr ''google-gemini-cli/gemini-3-flash''])]"

section \<open>The world outside the process\<close>

text \<open>
  What the program reads from outside, as one record:
  \<^item> \<open>status_output\<close>: the document \<open>json.loads\<close> decodes from the stdout of
    \<open>openclaw models status --json\<close>, starting at the first line that begins with
    \<open>{\<close>; \<open>None\<close> when \<open>subprocess.run\<close> raises (no binary, timeout), when no line
    begins with \<open>{\<close>, or when \<open>json.loads\<close> raises;
  \<^item> \<open>auth_file\<close>: \<open>json.loads(AUTH_PROFILES.read_text())\<close>, \<open>None\<close> when that raises;
  \<^item> \<open>clock\<close> and \<open>clock_reads\<close>: the wall clock in epoch milliseconds. Reading
    number \<open>n\<close> of the clock returns \<open>clock n\<close>; \<open>clock_reads\<close> counts the readings
    made so far, so two readings can differ;
  \<^item> \<open>health_output\<close> and \<open>version_output\<close>: the stdout of \<open>openclaw health\<close> and of
    \<open>openclaw --version\<close>, \<open>None\<close> when \<open>subprocess.run\<close> raises.
\<close>

record world =
  status_output :: "json option"
  auth_file :: "json option"
  clock :: "nat \<Rightarrow> real"
  clock_reads :: nat
  health_output :: "string option"
  version_output :: "string option"

text \<open>\<open>datetime.now(timezone.utc).timestamp() * 1000\<close>: one reading of the clock.\<close>

definition sample_clock :: "world \<Rightarrow> real \<times> world" where
  "sample_clock w = (clock w (clock_reads w), w\<lparr>clock_reads := Suc (clock_reads w)\<rparr>)"

section \<open>Auth profiles: \<open>read_auth_profiles\<close>\<close>

record auth_profile =
  profile_id :: string
  provider :: json
  auth_type :: json
  email :: json
  api_key :: "string option"
  expires_ms :: json
  in_cooldown :: bool
  cooldown_remaining_ms :: real
  error_count :: json
  last_used_ms :: json

text \<open>
  The number a value stands for in \<open>cooldown_until > now_ms\<close> and in
  \<open>cooldown_until - now_ms\<close>: a bool is an int; anything else but a number raises.
\<close>

fun as_number :: "json \<Rightarrow> error + real" where
  "as_number (JNum x) = Inr x"
| "as_number (JBool b) = Inr (if b then 1 else 0)"
| "as_number _ = Inl TypeError"

text \<open>
  \<open>pdata.get("apiKey", "")[:8] + "..." if pdata.get("apiKey") else None\<close>.
  A truthy value that is not a str raises: a number or \<open>True\<close> cannot be sliced, a
  list slice cannot be added to a str, a dict is not indexed by a slice (a KeyError
  from Python 3.12 on).
\<close>

definition api_key_display :: "(string \<times> json) list \<Rightarrow> error + string option" where
  "api_key_display pdata =
     (if truthy (dict_get pdata ''apiKey'' JNull)
      then (case dict_get pdata ''apiKey'' (JStr '''') of
              JStr k \<Rightarrow> Inr (Some (take 8 k @ ''...''))
            | _ \<Rightarrow> Inl TypeError)
      else Inr None)"

text \<open>
  The body of \<open>for pid, pdata in profiles_raw.items()\<close>:
  \<^verbatim>\<open>
      stats = usage.get(pid, {})
      cooldown_until = stats.get("cooldownUntil", 0)
      in_cooldown = cooldown_until > now_ms
      cooldown_remaining_ms = max(0, cooldown_until - now_ms) if in_cooldown else 0
      result.append({"profile_id": pid,
                     "provider": pdata.get("provider", pid.split(":")[0]), ...})
  \<close>
\<close>

definition auth_entry :: "real \<Rightarrow> json \<Rightarrow> string \<times> json \<Rightarrow> error + auth_profile" where
  "auth_entry now_ms usage item =
     (let pid = fst item; pdata = snd item
      in case py_get usage pid (JObj []) of
           Inl e \<Rightarrow> Inl e
         | Inr (JObj stats) \<Rightarrow>
            (case as_number (dict_get stats ''cooldownUntil'' (JNum 0)) of
               Inl e \<Rightarrow> Inl e
             | Inr cooldown_until \<Rightarrow>
            (case pdata of
               JObj p \<Rightarrow>
                 (case api_key_display p of
                    Inl e \<Rightarrow> Inl e
                  | Inr key \<Rightarrow>
                      Inr \<lparr>profile_id = pid,
                           provider = dict_get p ''provider''
                             (JStr (case split_char CHR '':'' pid of x # _ \<Rightarrow> x | [] \<Rightarrow> [])),
                           auth_type = dict_get p ''type'' (JStr ''unknown''),
                           email = dict_get p ''email'' JNull,
                           api_key = key,
                           expires_ms = dict_get p ''expires'' JNull,
                           in_cooldown = (cooldown_until > now_ms),
                           cooldown_remaining_ms =
                             (if cooldown_until > now_ms then max 0 (cooldown_until - now_ms) else 0),
                           error_count = dict_get stats ''errorCount'' (JNum 0),
                           last_used_ms = dict_get stats ''lastUsed'' JNull\<rparr>)
             | _ \<Rightarrow> Inl AttributeError))
         | Inr _ \<Rightarrow> Inl AttributeError)"

text \<open>
  \<^verbatim>\<open>
  def read_auth_profiles(raw: dict | None = None) -> list[dict]:
      if raw is None:
          try:
              raw = json.loads(AUTH_PROFILES.read_text())
          except Exception:
              return []
      profiles_raw = raw.get("profiles", {})
      usage = raw.get("usageStats", {})
      now_ms = datetime.now(timezone.utc).timestamp() * 1000
      result = []
      for pid, pdata in profiles_raw.items():
          ...
      return result
  \<close>
  The argument is \<open>None\<close> when no source is passed. The result is paired with the
  world after the call, which records whether the clock was read.
\<close>

definition read_auth_profiles :: "json option \<Rightarrow> world \<Rightarrow> (error + auth_profile list) \<times> world" where
  "read_auth_profiles raw_arg w =
     (case (case raw_arg of None \<Rightarrow> auth_file w | Some r \<Rightarrow> Some r) of
        None \<Rightarrow> (Inr [], w)
      | Some r \<Rightarrow>
          (case py_get r ''profiles'' (JObj []) of
             Inl e \<Rightarrow> (Inl e, w)
           | Inr profiles_raw \<Rightarrow>
          (case py_get r ''usageStats'' (JObj []) of
             Inl e \<Rightarrow> (Inl e, w)
           | Inr usage \<Rightarrow>
              (let now_ms = fst (sample_clock w); w' = snd (sample_clock w)
               in case py_items profiles_raw of
                    Inl e \<Rightarrow> (Inl e, w')
                  | Inr items \<Rightarrow> (map_err (auth_entry now_ms usage) items, w')))))"


text \<open>The sample credential store of \<open>test_data_layer.py\<close>.\<close>

definition SAMPLE_AUTH :: json where
  "SAMPLE_AUTH = JObj
     [(''profiles'', JObj
        [(''groq:manual'', JObj [(''type'', JStr ''apiKey''), (''provider'', JStr ''groq''),
                                 (''apiKey'', JStr ''gsk_abc'')]),
         (''google-gemini-cli:bob'', JObj
            [(''type'', JStr ''oauth''), (''provider'', JStr ''google-gemini-cli''),
             (''expires'', JNum 9999999999000), (''email'', JStr ''bob@example.com'')])]),
      (''usageStats'', JObj
        [(''google-gemini-cli:bob'', JObj
            [(''lastUsed'', JNum 1770900000000), (''errorCount'', JNum 2),
             (''cooldownUntil'', JNum 9999999999000),
             (''failureCounts'', JObj [(''rate_limit'', JNum 2)])])])]"

text \<open>
  A world in which every command fails and no file can be read; the clock stands at
  \<open>t\<close>.
\<close>

definition dead_world :: "real \<Rightarrow> world" where
  "dead_world t =
     \<lparr>status_output = None, auth_file = None, clock = (\<lambda>n. t), clock_reads = 0,
      health_output = None, version_output = None\<rparr>"


subsection \<open>Well-typed credential stores\<close>







section \<open>Log lines: \<open>_parse_log_line\<close>\<close>

text \<open>
  The Python library functions the parser calls are parameters of the model:
  \<open>loads\<close> is \<open>json.loads\<close> (\<open>None\<close> when it raises), \<open>dumps\<close> is \<open>json.dumps\<close> and
  \<open>repr\<close> is what \<open>str\<close> prints for a value that is not a str.
\<close>

record pylib =
  loads :: "string \<Rightarrow> json option"
  dumps :: "json \<Rightarrow> string"
  repr :: "json \<Rightarrow> string"

text \<open>\<open>str(x)\<close>.\<close>

definition py_str :: "pylib \<Rightarrow> json \<Rightarrow> string" where
  "py_str lib v = (case v of JStr s \<Rightarrow> s | _ \<Rightarrow> repr lib v)"

text \<open>\<open>s.upper()\<close>, on ASCII letters.\<close>

definition upper_char :: "char \<Rightarrow> char" where
  "upper_char c =
     (case map_of (zip ''abcdefghijklmnopqrstuvwxyz'' ''ABCDEFGHIJKLMNOPQRSTUVWXYZ'') c of
        None \<Rightarrow> c
      | Some u \<Rightarrow> u)"

definition upper :: "string \<Rightarrow> string" where
  "upper s = map upper_char s"

text \<open>\<open>s.strip()\<close>, on the ASCII whitespace characters.\<close>

definition is_space :: "char \<Rightarrow> bool" where
  "is_space c =
     (c \<in> {CHR '' '', CHR 0x09, CHR 0x0A, CHR 0x0B, CHR 0x0C, CHR 0x0D,
            CHR 0x1C, CHR 0x1D, CHR 0x1E, CHR 0x1F})"

definition strip :: "string \<Rightarrow> string" where
  "strip s = rev (dropWhile is_space (rev (dropWhile is_space s)))"

record log_event =
  time :: string
  subsystem :: string
  message :: string
  level :: string
  important :: bool

definition LOG_IMPORTANT_SUBSYSTEMS :: "string set" where
  "LOG_IMPORTANT_SUBSYSTEMS = {''model'', ''ratelimit'', ''fallback'', ''error'', ''gateway/reload''}"

text \<open>
  The inner \<open>try\<close> block:
  \<^verbatim>\<open>
      name_obj = json.loads(name_raw) if isinstance(name_raw, str) else name_raw
      subsystem = name_obj.get("subsystem", "unknown").removeprefix("gateway/")
  \<close>
  Only a dict has \<open>get\<close> and only a str has \<open>removeprefix\<close>.
\<close>

definition subsystem_try :: "pylib \<Rightarrow> json \<Rightarrow> error + string" where
  "subsystem_try lib name_raw =
     (case (case name_raw of
              JStr s \<Rightarrow> (case loads lib s of None \<Rightarrow> Inl JSONDecodeError | Some v \<Rightarrow> Inr v)
            | _ \<Rightarrow> Inr name_raw) of
        Inl e \<Rightarrow> Inl e
      | Inr name_obj \<Rightarrow>
          (case py_get name_obj ''subsystem'' (JStr ''unknown'') of
             Inl e \<Rightarrow> Inl e
           | Inr (JStr s) \<Rightarrow> Inr (removeprefix ''gateway/'' s)
           | Inr _ \<Rightarrow> Inl AttributeError))"

text \<open>The inner \<open>try\<close> with its handler \<open>except Exception: subsystem = str(name_raw)\<close>.\<close>

definition subsystem_of :: "pylib \<Rightarrow> json \<Rightarrow> string" where
  "subsystem_of lib name_raw =
     (case subsystem_try lib name_raw of Inl e \<Rightarrow> py_str lib name_raw | Inr s \<Rightarrow> s)"

text \<open>\<open>meta.get("logLevelName", "INFO").upper()\<close>: only a str has \<open>upper\<close>.\<close>

definition level_of :: "(string \<times> json) list \<Rightarrow> error + string" where
  "level_of meta =
     (case dict_get meta ''logLevelName'' (JStr ''INFO'') of
        JStr s \<Rightarrow> Inr (upper s)
      | _ \<Rightarrow> Inl AttributeError)"

text \<open>
  \<open>obj.get("time", "")[:19].replace("T", " ")\<close>: a list can be sliced but has no
  \<open>replace\<close>; nothing else but a str can be sliced.
\<close>

definition time_of :: "(string \<times> json) list \<Rightarrow> error + string" where
  "time_of obj =
     (case dict_get obj ''time'' (JStr '''') of
        JStr s \<Rightarrow> Inr (map (\<lambda>c. if c = CHR ''T'' then CHR '' '' else c) (take 19 s))
      | JList xs \<Rightarrow> Inl AttributeError
      | _ \<Rightarrow> Inl TypeError)"

text \<open>
  The outer \<open>try\<close> block of \<open>_parse_log_line\<close>:
  \<^verbatim>\<open>
      obj = json.loads(raw_line)
      meta = obj.get("_meta", {})
      name_raw = meta.get("name", "{}")
      ... subsystem ...
      msg_raw = obj.get("1", "")
      msg = msg_raw if isinstance(msg_raw, str) else json.dumps(msg_raw)
      level = meta.get("logLevelName", "INFO").upper()
      ts = obj.get("time", "")[:19].replace("T", " ")
      return {"time": ts, "subsystem": subsystem, "message": msg, "level": level,
              "important": subsystem in LOG_IMPORTANT_SUBSYSTEMS or level == "ERROR"}
  \<close>
\<close>

definition parse_log_line_body :: "pylib \<Rightarrow> string \<Rightarrow> error + log_event" where
  "parse_log_line_body lib raw_line =
     (case loads lib raw_line of
        None \<Rightarrow> Inl JSONDecodeError
      | Some (JObj obj) \<Rightarrow>
          (case dict_get obj ''_meta'' (JObj []) of
             JObj meta \<Rightarrow>
               (let name_raw = dict_get meta ''name'' (JStr ''{}'');
                    subsys = subsystem_of lib name_raw;
                    msg_raw = dict_get obj ''1'' (JStr '''');
                    msg = (case msg_raw of JStr s \<Rightarrow> s | _ \<Rightarrow> dumps lib msg_raw)
                in case level_of meta of
                     Inl e \<Rightarrow> Inl e
                   | Inr lvl \<Rightarrow>
                  (case time_of obj of
                     Inl e \<Rightarrow> Inl e
                   | Inr ts \<Rightarrow>
                       Inr \<lparr>time = ts, subsystem = subsys, message = msg, level = lvl,
                            important = (subsys \<in> LOG_IMPORTANT_SUBSYSTEMS \<or> lvl = ''ERROR'')\<rparr>))
           | _ \<Rightarrow> Inl AttributeError)
      | Some _ \<Rightarrow> Inl AttributeError)"

text \<open>\<open>_parse_log_line\<close>: the outer handler \<open>except Exception: return None\<close>.\<close>

definition parse_log_line :: "pylib \<Rightarrow> string \<Rightarrow> log_event option" where
  "parse_log_line lib raw_line =
     (case parse_log_line_body lib raw_line of Inl e \<Rightarrow> None | Inr ev \<Rightarrow> Some ev)"

text \<open>
  The significance set as the specification lists it, for the namespace-stripped
  subsystem.
\<close>

definition spec_important_subsystems :: "string set" where
  "spec_important_subsystems = {''model'', ''ratelimit'', ''fallback'', ''error'', ''reload''}"

text \<open>
  A decoder that knows the listed texts and rejects every other text; its \<open>dumps\<close> and
  \<open>repr\<close> print a placeholder.
\<close>

definition table_lib :: "(string \<times> json) list \<Rightarrow> pylib" where
  "table_lib tbl = \<lparr>loads = map_of tbl, dumps = (\<lambda>v. ''?''), repr = (\<lambda>v. ''?'')\<rparr>"

text \<open>
  A log line of the gateway's reload subsystem at level INFO, and the text its \<open>name\<close>
  field carries. A backslash precedes each quote inside the \<open>name\<close> field.
\<close>

definition reload_name :: string where
  \<open>reload_name = ''{"subsystem": "gateway/reload"}''\<close>

definition reload_line :: string where
  \<open>reload_line =
     ''{"_meta": {"name": "{'' @ [CHR 0x5C] @ ''"subsystem'' @ [CHR 0x5C] @ ''": ''
     @ [CHR 0x5C] @ ''"gateway/reload'' @ [CHR 0x5C] @ ''"}", "logLevelName": "INFO"}, ''
     @ ''"1": "config reloaded", "time": "2026-01-01T00:00:00.000Z"}''\<close>

definition reload_obj :: json where
  "reload_obj = JObj
     [(''_meta'', JObj [(''name'', JStr reload_name), (''logLevelName'', JStr ''INFO'')]),
      (''1'', JStr ''config reloaded''),
      (''time'', JStr ''2026-01-01T00:00:00.000Z'')]"

definition reload_lib :: pylib where
  "reload_lib = table_lib
     [(reload_line, reload_obj),
      (reload_name, JObj [(''subsystem'', JStr ''gateway/reload'')])]"

text \<open>A decoder for the text \<open>{}\<close> alone.\<close>

definition empty_obj_lib :: pylib where
  "empty_obj_lib = table_lib [(''{}'', JObj [])]"

text \<open>
  The fields of a log record, other than the message, that the parser reads are absent
  or of their type: \<open>_meta\<close> a dict whose \<open>logLevelName\<close> is a str, \<open>time\<close> a str.
\<close>

fun meta_ok :: "json \<Rightarrow> bool" where
  "meta_ok (JObj meta) = opt_key meta ''logLevelName'' is_str"
| "meta_ok _ = False"

definition log_fields_ok :: "(string \<times> json) list \<Rightarrow> bool" where
  "log_fields_ok obj = (opt_key obj ''_meta'' meta_ok \<and> opt_key obj ''time'' is_str)"

section \<open>The event queue\<close>

text \<open>
  \<open>DataLayer.__init__\<close> creates \<open>queue.Queue(maxsize=500)\<close>. The queue is the list of
  its items, oldest first.
\<close>

definition maxsize :: nat where
  "maxsize = 500"

text \<open>
  \<open>q.put(item)\<close> of the standard library with its default arguments \<open>block=True,
  timeout=None\<close>: while a bounded queue is full the caller waits for a free slot; the
  call never raises and never drops the item. \<open>Blocked\<close> is the caller waiting inside
  the call.
\<close>

datatype 'a put_result = Stored "'a list" | Blocked

definition queue_put :: "nat \<Rightarrow> 'a list \<Rightarrow> 'a \<Rightarrow> 'a put_result" where
  "queue_put n q x = (if 0 < n \<and> n \<le> length q then Blocked else Stored (q @ [x]))"




section \<open>The log tailer: \<open>LogTailer._run\<close>\<close>

text \<open>\<open>log_path\<close>, from the date \<open>datetime.now().strftime("%Y-%m-%d")\<close>.\<close>

definition log_path :: "string \<Rightarrow> string" where
  "log_path today = ''/tmp/openclaw/openclaw-'' @ today @ ''.log''"

text \<open>
  What the tailer thread sees of the outside when it takes one step: whether the stop
  event is set, the date, which paths exist, whether opening a path raises, and what
  \<open>readline\<close> returns on the open file of a path (\<open>None\<close> when it raises, the empty
  string when there is no new data).
\<close>

record observation =
  stop_is_set :: bool
  today :: string
  path_exists :: "string \<Rightarrow> bool"
  open_raises :: "string \<Rightarrow> bool"
  readline :: "string \<Rightarrow> string option"

text \<open>
  Where the thread stands in
  \<^verbatim>\<open>
      while not self._stop.is_set():
          path = log_path()
          if not path.exists():
              self._stop.wait(2)
              continue
          try:
              with open(path, "r") as f:
                  f.seek(0, 2)
                  while not self._stop.is_set():
                      line = f.readline()
                      if line:
                          parsed = _parse_log_line(line.strip())
                          if parsed:
                              self._q.put(parsed)
                      else:
                          self._stop.wait(0.2)
          except Exception:
              self._stop.wait(1)
  \<close>
  \<open>Outer\<close>: at the test of the outer loop. \<open>Tailing path\<close>: at the test of the inner
  loop, holding the open file of \<open>path\<close>. \<open>Putting path ev\<close>: waiting inside
  \<open>self._q.put(ev)\<close>. \<open>Finished\<close>: the outer loop is left.
\<close>

datatype tailer_state = Outer | Tailing string | Putting string log_event | Finished

fun tailer_step :: "pylib \<Rightarrow> observation \<Rightarrow> tailer_state \<times> log_event list \<Rightarrow> tailer_state \<times> log_event list" where
  "tailer_step lib ob (Outer, q) =
     (if stop_is_set ob then (Finished, q)
      else (let path = log_path (today ob)
            in if \<not> path_exists ob path then (Outer, q)
               else if open_raises ob path then (Outer, q)
               else (Tailing path, q)))"
| "tailer_step lib ob (Tailing path, q) =
     (if stop_is_set ob then (Outer, q)
      else (case readline ob path of
              None \<Rightarrow> (Outer, q)
            | Some line \<Rightarrow>
                (if line \<noteq> [] then
                   (case parse_log_line lib (strip line) of
                      None \<Rightarrow> (Tailing path, q)
                    | Some parsed \<Rightarrow>
                        (case queue_put maxsize q parsed of
                           Stored q' \<Rightarrow> (Tailing path, q')
                         | Blocked \<Rightarrow> (Putting path parsed, q)))
                 else (Tailing path, q))))"
| "tailer_step lib ob (Putting path parsed, q) =
     (case queue_put maxsize q parsed of
        Stored q' \<Rightarrow> (Tailing path, q')
      | Blocked \<Rightarrow> (Putting path parsed, q))"
| "tailer_step lib ob (Finished, q) = (Finished, q)"

text \<open>The tailer taking one step per observation.\<close>

definition run_tailer :: "pylib \<Rightarrow> observation list \<Rightarrow> tailer_state \<times> log_event list \<Rightarrow> tailer_state \<times> log_event list" where
  "run_tailer lib obs s = fold (tailer_step lib) obs s"





text \<open>
  The day after 2026-01-01: the stop event is not set, the file of the new day
  exists, and the file of the old day has no new data.
\<close>

definition next_day_obs :: observation where
  "next_day_obs =
     \<lparr>stop_is_set = False, today = ''2026-01-02'', path_exists = (\<lambda>p. True),
      open_raises = (\<lambda>p. False), readline = (\<lambda>p. Some [])\<rparr>"


section \<open>The data layer\<close>

text \<open>
  \<open>fetch_model_status\<close>: the decoded document is parsed, and every exception, of the
  command, of the decoder or of \<open>parse_model_status\<close>, yields \<open>None\<close>.
\<close>

definition fetch_model_status :: "world \<Rightarrow> snapshot option" where
  "fetch_model_status w =
     (case status_output w of
        None \<Rightarrow> None
      | Some doc \<Rightarrow> (case parse_model_status doc of Inl e \<Rightarrow> None | Inr s \<Rightarrow> Some s))"

text \<open>
  The fields of \<open>DataLayer\<close>. \<open>_status\<close> is \<open>{}\<close> (here \<open>None\<close>) until a fetch succeeds,
  then the dict \<open>parse_model_status\<close> returned.
\<close>

record data_layer =
  dl_status :: "snapshot option"
  dl_profiles :: "auth_profile list"
  dl_log_queue :: "log_event list"

definition DataLayer_init :: data_layer where
  "DataLayer_init = \<lparr>dl_status = None, dl_profiles = [], dl_log_queue = []\<rparr>"

text \<open>
  \<^verbatim>\<open>
      def refresh(self):
          status = fetch_model_status()
          if status:
              self._status = status
          self._profiles = read_auth_profiles()
  \<close>
  The dict of a successful fetch is never empty, so it is true. An exception of
  \<open>read_auth_profiles\<close> leaves \<open>refresh\<close> after \<open>_status\<close> is assigned; it is returned
  with the state and the world the call leaves.
\<close>

definition refresh :: "data_layer \<Rightarrow> world \<Rightarrow> error option \<times> data_layer \<times> world" where
  "refresh dl w =
     (let dl1 = (case fetch_model_status w of None \<Rightarrow> dl | Some s \<Rightarrow> dl\<lparr>dl_status := Some s\<rparr>)
      in case read_auth_profiles None w of
           (Inl e, w') \<Rightarrow> (Some e, dl1, w')
         | (Inr ps, w') \<Rightarrow> (None, dl1\<lparr>dl_profiles := ps\<rparr>, w'))"

text \<open>The properties \<open>rotation\<close> and \<open>default_model\<close>.\<close>

definition dl_rotation :: "data_layer \<Rightarrow> rotation_entry list" where
  "dl_rotation dl = (case dl_status dl of None \<Rightarrow> [] | Some s \<Rightarrow> rotation s)"

definition dl_default_model :: "data_layer \<Rightarrow> json" where
  "dl_default_model dl = (case dl_status dl of None \<Rightarrow> JStr '''' | Some s \<Rightarrow> snapshot_default s)"


text \<open>
  A world in which the status command prints nothing to parse, and the credential
  store is the sample of the tests.
\<close>

definition status_down_world :: world where
  "status_down_world = (dead_world 1770900000000)\<lparr>auth_file := Some SAMPLE_AUTH\<rparr>"

text \<open>A world in which the status command prints the sample document of the tests.\<close>

definition status_up_world :: world where
  "status_up_world = (dead_world 1770900000000)\<lparr>status_output := Some (JObj SAMPLE_STATUS)\<rparr>"

text \<open>The data layer after a first refresh in which the status command succeeded.\<close>

definition held_layer :: data_layer where
  "held_layer = fst (snd (refresh DataLayer_init status_up_world))"

section \<open>Gateway health: \<open>fetch_gateway_status\<close>\<close>

text \<open>
  The dict \<open>fetch_gateway_status\<close> returns: \<open>gw_state\<close> is its key \<open>"gateway"\<close>, and each
  other key is \<open>None\<close> while the dict does not have it.
\<close>

record gateway_status =
  gw_state :: string
  gw_pid :: "json option"
  gw_sessions :: "json option"
  gw_agents :: "json option"
  gw_version :: "json option"

text \<open>\<open>s.splitlines()\<close>, on the ASCII line boundaries; \<open>\r\n\<close> is one boundary.\<close>

definition is_linebreak :: "char \<Rightarrow> bool" where
  "is_linebreak c = (c \<in> {CHR 0x0A, CHR 0x0B, CHR 0x0C, CHR 0x0D, CHR 0x1C, CHR 0x1D, CHR 0x1E})"

fun splitlines_from :: "string \<Rightarrow> string \<Rightarrow> string list" where
  "splitlines_from cur [] = (if cur = [] then [] else [cur])"
| "splitlines_from cur [c] = (if is_linebreak c then [cur] else [cur @ [c]])"
| "splitlines_from cur (c # d # cs) =
     (if c = CHR 0x0D \<and> d = CHR 0x0A then cur # splitlines_from [] cs
      else if is_linebreak c then cur # splitlines_from [] (d # cs)
      else splitlines_from (cur @ [c]) (d # cs))"

definition splitlines :: "string \<Rightarrow> string list" where
  "splitlines s = splitlines_from [] s"

text \<open>\<open>sub in s\<close>.\<close>

fun contains :: "string \<Rightarrow> string \<Rightarrow> bool" where
  "contains sub [] = (sub = [])"
| "contains sub (c # cs) = (prefix sub (c # cs) \<or> contains sub cs)"

text \<open>The regular expression class \<open>\d\<close>, on ASCII.\<close>

definition is_digit :: "char \<Rightarrow> bool" where
  "is_digit c = (c \<in> set ''0123456789'')"

text \<open>
  \<open>re.search(r"(\d{4,})", line)\<close>: group 1 of the leftmost match, the first run of
  at least four digits, taken whole.
\<close>

fun search_digits4 :: "string \<Rightarrow> string option" where
  "search_digits4 [] = None"
| "search_digits4 (c # cs) =
     (if 4 \<le> length (takeWhile is_digit (c # cs)) then Some (takeWhile is_digit (c # cs))
      else search_digits4 cs)"

text \<open>
  \<open>re.search(r"\((\d+) entries\)", line)\<close>: group 1 of the leftmost match. After an
  opening parenthesis the digits are taken greedily; taking fewer cannot match, since
  a digit would have to match the space.
\<close>

fun search_entries :: "string \<Rightarrow> string option" where
  "search_entries [] = None"
| "search_entries (c # cs) =
     (if c = CHR ''('' \<and> takeWhile is_digit cs \<noteq> []
         \<and> prefix '' entries)'' (dropWhile is_digit cs)
      then Some (takeWhile is_digit cs)
      else search_entries cs)"

text \<open>\<open>line.split(":", 1)[1]\<close>: what follows the first colon; without a colon the
  index is out of range.\<close>

definition after_colon :: "string \<Rightarrow> error + string" where
  "after_colon line =
     (case dropWhile (\<lambda>c. c \<noteq> CHR '':'') line of
        [] \<Rightarrow> Inl IndexError
      | c # rest \<Rightarrow> Inr rest)"

text \<open>
  The body of \<open>for line in out.splitlines()\<close>:
  \<^verbatim>\<open>
      if "PID" in line or "pid" in line:
          m = re.search(r"(\d{4,})", line)
          if m:
              result["pid"] = m.group(1)
      elif "Session store" in line:
          m = re.search(r"\((\d+) entries\)", line)
          if m:
              result["sessions"] = m.group(1)
      elif line.strip().startswith("Agents:"):
          agents = line.split(":", 1)[1].strip()
          result["agents"] = len(agents.split(","))
  \<close>
\<close>

definition gateway_line :: "gateway_status \<Rightarrow> string \<Rightarrow> error + gateway_status" where
  "gateway_line result line =
     (if contains ''PID'' line \<or> contains ''pid'' line then
        (case search_digits4 line of
           None \<Rightarrow> Inr result
         | Some m \<Rightarrow> Inr (result\<lparr>gw_pid := Some (JStr m)\<rparr>))
      else if contains ''Session store'' line then
        (case search_entries line of
           None \<Rightarrow> Inr result
         | Some m \<Rightarrow> Inr (result\<lparr>gw_sessions := Some (JStr m)\<rparr>))
      else if prefix ''Agents:'' (strip line) then
        (case after_colon line of
           Inl e \<Rightarrow> Inl e
         | Inr rest \<Rightarrow>
             Inr (result\<lparr>gw_agents :=
                    Some (JNum (real (length (split_char CHR '','' (strip rest)))))\<rparr>))
      else Inr result)"

text \<open>A loop that updates one value per element and is left by the first exception.\<close>

fun fold_err :: "('s \<Rightarrow> 'a \<Rightarrow> error + 's) \<Rightarrow> 'a list \<Rightarrow> 's \<Rightarrow> error + 's" where
  "fold_err f [] s = Inr s"
| "fold_err f (x # xs) s = (case f s x of Inl e \<Rightarrow> Inl e | Inr s' \<Rightarrow> fold_err f xs s')"

text \<open>
  The dict of the handler:
  \<open>{"gateway": "ERR", "pid": "?", "sessions": "?", "agents": "?", "version": "?"}\<close>.
\<close>

definition gateway_err :: gateway_status where
  "gateway_err =
     \<lparr>gw_state = ''ERR'', gw_pid = Some (JStr ''?''), gw_sessions = Some (JStr ''?''),
      gw_agents = Some (JStr ''?''), gw_version = Some (JStr ''?'')\<rparr>"

text \<open>
  \<^verbatim>\<open>
  def fetch_gateway_status() -> dict:
      try:
          r = subprocess.run(["openclaw", "health"], ...)
          out = r.stdout
          result = {"gateway": "RUN"}
          for line in out.splitlines():
              ...
          ver_r = subprocess.run(["openclaw", "--version"], ...)
          result["version"] = ver_r.stdout.strip()[:20]
          return result
      except Exception:
          return {"gateway": "ERR", "pid": "?", ...}
  \<close>
\<close>

definition fetch_gateway_status :: "world \<Rightarrow> gateway_status" where
  "fetch_gateway_status w =
     (case health_output w of
        None \<Rightarrow> gateway_err
      | Some out \<Rightarrow>
          (case fold_err gateway_line (splitlines out)
                  \<lparr>gw_state = ''RUN'', gw_pid = None, gw_sessions = None,
                   gw_agents = None, gw_version = None\<rparr> of
             Inl e \<Rightarrow> gateway_err
           | Inr result \<Rightarrow>
               (case version_output w of
                  None \<Rightarrow> gateway_err
                | Some ver \<Rightarrow> result\<lparr>gw_version := Some (JStr (take 20 (strip ver)))\<rparr>)))"

text \<open>A world in which the gateway answers both commands.\<close>

definition healthy_world :: world where
  "healthy_world = (dead_world 0)
     \<lparr>health_output := Some (''Gateway PID 12345'' @ [CHR 0x0A]
          @ ''Session store: sessions.json (12 entries)'' @ [CHR 0x0A]
          @ ''Agents: main, helper'' @ [CHR 0x0A]),
      version_output := Some (''openclaw 1.2.3'' @ [CHR 0x0A])\<rparr>"

section \<open>Properties of \<open>parse_model_status\<close>\<close>

lemma rotation_loop_strs:
  "rotation_loop ainv i (map JStr ms) =
     Inr (map (\<lambda>(k, m). rotation_entry_of ainv k m) (enumerate i ms))"
  by (induction ms arbitrary: i) simp_all

lemma is_str_list_map:
  "list_all is_str xs \<Longrightarrow> \<exists>ss. xs = map JStr ss"
proof (induction xs)
  case Nil
  then show ?case by simp
next
  case (Cons x xs)
  then obtain ss where "xs = map JStr ss" by auto
  moreover from Cons.prems obtain s where "x = JStr s" by (cases x) auto
  ultimately have "x # xs = map JStr (s # ss)" by simp
  then show ?case by (rule exI)
qed

lemma map_err_oauth_dicts:
  "list_all is_dict ps \<Longrightarrow> \<exists>oa. map_err oauth_entry ps = Inr oa \<and> length oa = length ps"
proof (induction ps)
  case Nil
  then show ?case by simp
next
  case (Cons p ps)
  then obtain oa where "map_err oauth_entry ps = Inr oa" "length oa = length ps" by auto
  moreover from Cons.prems obtain d where "p = JObj d" by (cases p) auto
  ultimately show ?case by simp
qed

lemma oauth_section_ok:
  assumes "opt_key d ''auth'' auth_ok"
  shows "\<exists>ps. oauth_profiles_raw d = Inr (JList ps) \<and> list_all is_dict ps"
proof (cases "map_of d ''auth''")
  case None
  then show ?thesis by (simp add: oauth_profiles_raw_def dict_get_def)
next
  case (Some a)
  with assms have "auth_ok a" by (simp add: opt_key_def)
  then obtain ad where a: "a = JObj ad" and o: "opt_key ad ''oauth'' oauth_ok"
    by (cases a) auto
  show ?thesis
  proof (cases "map_of ad ''oauth''")
    case None
    with Some a show ?thesis by (simp add: oauth_profiles_raw_def dict_get_def)
  next
    case (Some ov)
    with o have "oauth_ok ov" by (simp add: opt_key_def)
    then obtain od where ov: "ov = JObj od" and p: "opt_key od ''profiles'' profiles_ok"
      by (cases ov) auto
    show ?thesis
    proof (cases "map_of od ''profiles''")
      case None
      with \<open>map_of d ''auth'' = Some a\<close> a Some ov show ?thesis
        by (simp add: oauth_profiles_raw_def dict_get_def)
    next
      case (Some pv)
      with p have "profiles_ok pv" by (simp add: opt_key_def)
      then obtain ps where "pv = JList ps" "list_all is_dict ps" by (cases pv) auto
      with \<open>map_of d ''auth'' = Some a\<close> a \<open>map_of ad ''oauth'' = Some ov\<close> ov Some show ?thesis
        by (simp add: oauth_profiles_raw_def dict_get_def)
    qed
  qed
qed

lemma aliases_section_ok:
  assumes "opt_key d ''aliases'' aliases_ok"
  shows "\<exists>items. py_items (dict_get d ''aliases'' (JObj [])) = Inr items
           \<and> invert_aliases items = Inr (map (\<lambda>kv. (snd kv, fst kv)) items)"
proof (cases "map_of d ''aliases''")
  case None
  then show ?thesis by (simp add: dict_get_def invert_aliases_def)
next
  case (Some a)
  with assms have "aliases_ok a" by (simp add: opt_key_def)
  then obtain items where "a = JObj items" "list_all (\<lambda>kv. hashable (snd kv)) items"
    by (cases a) auto
  with Some show ?thesis by (simp add: dict_get_def invert_aliases_def)
qed

lemma parse_model_status_sections:
  assumes D: "dict_get d ''defaultModel'' (JStr '''') = JStr D"
    and F: "dict_get d ''fallbacks'' (JList []) = JList (map JStr fs)"
    and S: "sections_ok d"
  shows "\<exists>ainv snap. parse_model_status (JObj d) = Inr snap
           \<and> snapshot_default snap = JStr D
           \<and> rotation snap = map (\<lambda>(k, m). rotation_entry_of ainv k m) (enumerate 0 (D # fs))"
proof -
  from S obtain items where
    I: "py_items (dict_get d ''aliases'' (JObj [])) = Inr items"
       "invert_aliases items = Inr (map (\<lambda>kv. (snd kv, fst kv)) items)"
    using aliases_section_ok by (auto simp: sections_ok_def)
  from S obtain ps where
    P: "oauth_profiles_raw d = Inr (JList ps)" "list_all is_dict ps"
    using oauth_section_ok by (auto simp: sections_ok_def)
  from P(2) obtain oa where O: "map_err oauth_entry ps = Inr oa"
    using map_err_oauth_dicts by blast
  have R: "rotation_loop ainv 0 (JStr D # map JStr fs) =
        Inr (map (\<lambda>(k, m). rotation_entry_of ainv k m) (enumerate 0 (D # fs)))" for ainv
    using rotation_loop_strs [of ainv 0 "D # fs"] by simp
  show ?thesis
    using D F I P O R
    by (intro exI [of _ "map (\<lambda>kv. (snd kv, fst kv)) items"]) (simp del: rotation_loop.simps)
qed

lemma rotation_loop_Inr:
  "rotation_loop ainv i ms = Inr es \<Longrightarrow>
     length es = length ms
   \<and> (\<forall>k<length ms. \<exists>m. ms ! k = JStr m \<and> es ! k = rotation_entry_of ainv (i + k) m)"
proof (induction ms arbitrary: i es)
  case Nil
  then show ?case by simp
next
  case (Cons x ms)
  from Cons.prems obtain m where x: "x = JStr m"
    by (cases x) auto
  from Cons.prems x obtain es' where
    es': "rotation_loop ainv (Suc i) ms = Inr es'" and es: "es = rotation_entry_of ainv i m # es'"
    by (auto split: sum.splits)
  from Cons.IH [OF es'] have
    IH: "length es' = length ms"
      "\<forall>k<length ms. \<exists>m. ms ! k = JStr m \<and> es' ! k = rotation_entry_of ainv (Suc i + k) m"
    by auto
  show ?case
  proof (intro conjI allI impI)
    show "length es = length (x # ms)" using IH es by simp
  next
    fix k assume k: "k < length (x # ms)"
    show "\<exists>m. (x # ms) ! k = JStr m \<and> es ! k = rotation_entry_of ainv (i + k) m"
    proof (cases k)
      case 0
      with x es show ?thesis by simp
    next
      case (Suc j)
      with k IH(2) es show ?thesis by simp
    qed
  qed
qed

lemma parse_model_status_Inr:
  assumes "parse_model_status (JObj d) = Inr snap"
  shows "\<exists>ainv fs. dict_get d ''fallbacks'' (JList []) = JList fs
           \<and> rotation_loop ainv 0 (dict_get d ''defaultModel'' (JStr '''') # fs) = Inr (rotation snap)
           \<and> snapshot_default snap = dict_get d ''defaultModel'' (JStr '''')"
  using assms
  by (auto simp: Let_def simp del: rotation_loop.simps split: sum.splits json.splits)

lemma parse_model_status_rotation:
  assumes "parse_model_status (JObj d) = Inr snap"
  shows "\<exists>ainv fs D. dict_get d ''fallbacks'' (JList []) = JList fs
           \<and> dict_get d ''defaultModel'' (JStr '''') = JStr D
           \<and> snapshot_default snap = JStr D
           \<and> length (rotation snap) = Suc (length fs)
           \<and> rotation snap ! 0 = rotation_entry_of ainv 0 D
           \<and> (\<forall>k<length fs. \<exists>m. fs ! k = JStr m
                 \<and> rotation snap ! Suc k = rotation_entry_of ainv (Suc k) m)"
proof -
  from parse_model_status_Inr [OF assms] obtain ainv fs where
    F: "dict_get d ''fallbacks'' (JList []) = JList fs"
    and R: "rotation_loop ainv 0 (dict_get d ''defaultModel'' (JStr '''') # fs) = Inr (rotation snap)"
    and S: "snapshot_default snap = dict_get d ''defaultModel'' (JStr '''')"
    by blast
  from rotation_loop_Inr [OF R] have
    L: "length (rotation snap) = Suc (length fs)"
    and N: "\<forall>k<Suc (length fs). \<exists>m. (dict_get d ''defaultModel'' (JStr '''') # fs) ! k = JStr m
        \<and> rotation snap ! k = rotation_entry_of ainv (0 + k) m"
    by auto
  from N [rule_format, of 0] obtain D where
    D: "dict_get d ''defaultModel'' (JStr '''') = JStr D"
    and Z: "rotation snap ! 0 = rotation_entry_of ainv 0 D"
    by auto
  have K: "\<exists>m. fs ! k = JStr m \<and> rotation snap ! Suc k = rotation_entry_of ainv (Suc k) m"
    if "k < length fs" for k
    using N [rule_format, of "Suc k"] that by simp
  show ?thesis
    using F D S L Z K
    by (intro exI [of _ ainv] exI [of _ fs] exI [of _ D]) simp
qed

text \<open>
  Claim C1. For every status dict with default model \<open>D\<close> and fallback list
  \<open>[f1, f2, ...]\<close>, \<open>parse_model_status\<close> returns a snapshot (it does whenever the
  other sections of the dict, \<open>aliases\<close> and \<open>auth\<close>, are absent or well-typed), and in
  every snapshot it returns the rotation has entry 0 with model \<open>D\<close>, status \<open>ACTIVE\<close>
  and position 0, and entry \<open>i\<close>, for every \<open>i \<ge> 1\<close>, with model \<open>f_i\<close>, status
  \<open>#i\<close> and position \<open>i\<close>; the snapshot's default is the model of rotation entry 0.
\<close>

theorem parse_model_status_rotation_order:
  assumes "map_of d ''defaultModel'' = Some (JStr D)"
    and "map_of d ''fallbacks'' = Some (JList (map JStr fs))"
  shows "(sections_ok d \<longrightarrow> (\<exists>snap. parse_model_status (JObj d) = Inr snap))
       \<and> (\<forall>snap. parse_model_status (JObj d) = Inr snap \<longrightarrow>
             length (rotation snap) = Suc (length fs)
           \<and> model (rotation snap ! 0) = D
           \<and> status (rotation snap ! 0) = ''ACTIVE''
           \<and> position (rotation snap ! 0) = 0
           \<and> (\<forall>i. 1 \<le> i \<and> i \<le> length fs \<longrightarrow>
                  model (rotation snap ! i) = fs ! (i - 1)
                \<and> status (rotation snap ! i) = ''#'' @ str_nat i
                \<and> position (rotation snap ! i) = i)
           \<and> snapshot_default snap = JStr (model (rotation snap ! 0)))"
proof -
  from assms(1) have D: "dict_get d ''defaultModel'' (JStr '''') = JStr D"
    by (simp add: dict_get_def)
  from assms(2) have F: "dict_get d ''fallbacks'' (JList []) = JList (map JStr fs)"
    by (simp add: dict_get_def)
  have returns: "\<exists>snap. parse_model_status (JObj d) = Inr snap" if "sections_ok d"
    using parse_model_status_sections [OF D F that] by blast
  have shape: "length (rotation snap) = Suc (length fs)
           \<and> model (rotation snap ! 0) = D
           \<and> status (rotation snap ! 0) = ''ACTIVE''
           \<and> position (rotation snap ! 0) = 0
           \<and> (\<forall>i. 1 \<le> i \<and> i \<le> length fs \<longrightarrow>
                  model (rotation snap ! i) = fs ! (i - 1)
                \<and> status (rotation snap ! i) = ''#'' @ str_nat i
                \<and> position (rotation snap ! i) = i)
           \<and> snapshot_default snap = JStr (model (rotation snap ! 0))"
    if P: "parse_model_status (JObj d) = Inr snap" for snap
  proof -
    from parse_model_status_rotation [OF P] D F obtain ainv where
      S: "snapshot_default snap = JStr D"
      and L: "length (rotation snap) = Suc (length fs)"
      and Z: "rotation snap ! 0 = rotation_entry_of ainv 0 D"
      and K: "\<forall>k<length fs. \<exists>m. map JStr fs ! k = JStr m
                 \<and> rotation snap ! Suc k = rotation_entry_of ainv (Suc k) m"
      by auto
    have I: "model (rotation snap ! i) = fs ! (i - 1)
         \<and> status (rotation snap ! i) = ''#'' @ str_nat i
         \<and> position (rotation snap ! i) = i" if "1 \<le> i \<and> i \<le> length fs" for i
    proof -
      from that obtain j where j: "i = Suc j" "j < length fs" by (cases i) auto
      with K obtain m where "map JStr fs ! j = JStr m"
        "rotation snap ! Suc j = rotation_entry_of ainv (Suc j) m"
        by blast
      with j show ?thesis by (simp add: rotation_entry_of_def)
    qed
    show ?thesis
      using S L Z I by (simp add: rotation_entry_of_def)
  qed
  show ?thesis
    using returns shape by blast
qed

theorem parse_model_status_rotation_order_witness:
  "sections_ok SAMPLE_STATUS
   \<and> (\<exists>snap. parse_model_status (JObj SAMPLE_STATUS) = Inr snap
        \<and> length (rotation snap) = 3
        \<and> model (rotation snap ! 0) = ''google-gemini-cli/gemini-3-flash''
        \<and> status (rotation snap ! 0) = ''ACTIVE''
        \<and> model (rotation snap ! 1) = ''google-gemini-cli/gemini-3-pro-preview''
        \<and> status (rotation snap ! 1) = ''#1''
        \<and> model (rotation snap ! 2) = ''groq/llama-3.3-70b-versatile''
        \<and> status (rotation snap ! 2) = ''#2''
        \<and> position (rotation snap ! 2) = 2
        \<and> snapshot_default snap = JStr ''google-gemini-cli/gemini-3-flash'')"
proof -
  have h1: "map_of SAMPLE_STATUS ''defaultModel'' = Some (JStr ''google-gemini-cli/gemini-3-flash'')"
    by (simp add: SAMPLE_STATUS_def)
  have h2: "map_of SAMPLE_STATUS ''fallbacks'' =
      Some (JList (map JStr [''google-gemini-cli/gemini-3-pro-preview'', ''groq/llama-3.3-70b-versatile'']))"
    by (simp add: SAMPLE_STATUS_def)
  have h3: "sections_ok SAMPLE_STATUS"
    by (simp add: SAMPLE_STATUS_def sections_ok_def opt_key_def)
  note T = parse_model_status_rotation_order [OF h1 h2]
  from T h3 obtain snap where P: "parse_model_status (JObj SAMPLE_STATUS) = Inr snap"
    by blast
  with T have
    s: "length (rotation snap) = 3"
      "model (rotation snap ! 0) = ''google-gemini-cli/gemini-3-flash''"
      "status (rotation snap ! 0) = ''ACTIVE''"
      "snapshot_default snap = JStr (model (rotation snap ! 0))"
    and i: "\<forall>i. 1 \<le> i \<and> i \<le> 2 \<longrightarrow>
        model (rotation snap ! i) =
          [''google-gemini-cli/gemini-3-pro-preview'', ''groq/llama-3.3-70b-versatile''] ! (i - 1)
      \<and> status (rotation snap ! i) = ''#'' @ str_nat i
      \<and> position (rotation snap ! i) = i"
    by auto
  from i have "model (rotation snap ! 1) = ''google-gemini-cli/gemini-3-pro-preview''"
    and "status (rotation snap ! 1) = ''#1''"
    and "model (rotation snap ! 2) = ''groq/llama-3.3-70b-versatile''"
    and "status (rotation snap ! 2) = ''#2''"
    and "position (rotation snap ! 2) = 2"
    by (simp_all add: str_nat.simps digit_char_def)
  with h3 P s show ?thesis by simp
qed

text \<open>
  Claim C10, as amended. \<open>parse_model_status\<close> returns a snapshot for every input dict
  in which each key it reads is absent or holds a value of its type, the empty dict
  and the dicts without \<open>defaultModel\<close> among them. Whenever it returns a snapshot,
  the rotation has length exactly 1 + the number of fallbacks, so it is never empty,
  and its entry 0 is ACTIVE at position 0; when \<open>defaultModel\<close> is absent, the model
  of entry 0 is the empty string.
\<close>

theorem parse_model_status_rotation_length:
  "(status_dict d \<longrightarrow> (\<exists>snap. parse_model_status (JObj d) = Inr snap))
   \<and> (\<forall>snap. parse_model_status (JObj d) = Inr snap \<longrightarrow>
         length (rotation snap) = 1 + fallbacks_count d
       \<and> rotation snap \<noteq> []
       \<and> status (rotation snap ! 0) = ''ACTIVE''
       \<and> position (rotation snap ! 0) = 0
       \<and> (map_of d ''defaultModel'' = None \<longrightarrow> model (rotation snap ! 0) = ''''))"
proof -
  have returns: "\<exists>snap. parse_model_status (JObj d) = Inr snap" if ok: "status_dict d"
  proof -
    from ok have "is_str (dict_get d ''defaultModel'' (JStr ''''))"
      by (simp add: status_dict_def opt_key_def dict_get_def split: option.splits)
    then obtain D where D: "dict_get d ''defaultModel'' (JStr '''') = JStr D"
      by (cases "dict_get d ''defaultModel'' (JStr '''')") auto
    from ok have "is_str_list (dict_get d ''fallbacks'' (JList []))"
      by (simp add: status_dict_def opt_key_def dict_get_def split: option.splits)
    then obtain xs where X: "dict_get d ''fallbacks'' (JList []) = JList xs" "list_all is_str xs"
      by (cases "dict_get d ''fallbacks'' (JList [])") auto
    from X(2) obtain fs where "xs = map JStr fs"
      using is_str_list_map by blast
    with X have F: "dict_get d ''fallbacks'' (JList []) = JList (map JStr fs)"
      by simp
    from ok have S: "sections_ok d"
      by (simp add: status_dict_def)
    from parse_model_status_sections [OF D F S] show ?thesis by blast
  qed
  have shape: "length (rotation snap) = 1 + fallbacks_count d
       \<and> rotation snap \<noteq> []
       \<and> status (rotation snap ! 0) = ''ACTIVE''
       \<and> position (rotation snap ! 0) = 0
       \<and> (map_of d ''defaultModel'' = None \<longrightarrow> model (rotation snap ! 0) = '''')"
    if P: "parse_model_status (JObj d) = Inr snap" for snap
  proof -
    from parse_model_status_rotation [OF P] obtain ainv fs D where
      F: "dict_get d ''fallbacks'' (JList []) = JList fs"
      and D: "dict_get d ''defaultModel'' (JStr '''') = JStr D"
      and L: "length (rotation snap) = Suc (length fs)"
      and Z: "rotation snap ! 0 = rotation_entry_of ainv 0 D"
      by blast
    have C: "fallbacks_count d = length fs"
      using F by (simp add: fallbacks_count_def)
    have E: "D = ''''" if "map_of d ''defaultModel'' = None"
      using D that by (simp add: dict_get_def)
    from L have N: "rotation snap \<noteq> []" by auto
    show ?thesis
      using L C N Z E by (simp add: rotation_entry_of_def)
  qed
  show ?thesis
    using returns shape by blast
qed

theorem parse_model_status_rotation_length_witness:
  "status_dict [] \<and> (\<exists>snap. parse_model_status (JObj []) = Inr snap
      \<and> length (rotation snap) = 1
      \<and> status (rotation snap ! 0) = ''ACTIVE''
      \<and> model (rotation snap ! 0) = '''')"
proof -
  have h: "status_dict []"
    by (simp add: status_dict_def sections_ok_def opt_key_def)
  note T = parse_model_status_rotation_length [of "[]"]
  from T h obtain snap where P: "parse_model_status (JObj []) = Inr snap"
    by blast
  with T have "length (rotation snap) = 1 + fallbacks_count []"
    "status (rotation snap ! 0) = ''ACTIVE''" "model (rotation snap ! 0) = ''''"
    by auto
  with h P show ?thesis
    by (simp add: fallbacks_count_def dict_get_def)
qed

text \<open>
  A dict whose \<open>defaultModel\<close> is \<open>null\<close>: \<open>_shorten\<close> calls \<open>None.split\<close>, and no
  rotation is returned.
\<close>

theorem parse_model_status_null_default_counterexample:
  "parse_model_status (JObj [(''defaultModel'', JNull)]) = Inl AttributeError"
  by (simp add: dict_get_def invert_aliases_def)

section \<open>Properties of \<open>read_auth_profiles\<close>\<close>























section \<open>Properties of \<open>_parse_log_line\<close>\<close>

lemma parse_log_line_important:
  assumes "parse_log_line lib raw_line = Some ev"
  shows "important ev = (subsystem ev \<in> LOG_IMPORTANT_SUBSYSTEMS \<or> level ev = ''ERROR'')"
  using assms
  by (auto simp: parse_log_line_def parse_log_line_body_def Let_def
      split: option.splits json.splits sum.splits)

lemma level_of_ok:
  assumes "opt_key meta ''logLevelName'' is_str"
  shows "\<exists>lvl. level_of meta = Inr lvl"
proof (cases "map_of meta ''logLevelName''")
  case None
  then show ?thesis by (simp add: level_of_def dict_get_def)
next
  case (Some v)
  with assms obtain s where "v = JStr s" by (cases v) (auto simp: opt_key_def)
  with Some show ?thesis by (simp add: level_of_def dict_get_def)
qed

lemma time_of_ok:
  assumes "opt_key obj ''time'' is_str"
  shows "\<exists>ts. time_of obj = Inr ts"
proof (cases "map_of obj ''time''")
  case None
  then show ?thesis by (simp add: time_of_def dict_get_def)
next
  case (Some v)
  with assms obtain s where "v = JStr s" by (cases v) (auto simp: opt_key_def)
  with Some show ?thesis by (simp add: time_of_def dict_get_def)
qed

lemma meta_of_ok:
  assumes "opt_key obj ''_meta'' meta_ok"
  shows "\<exists>meta. dict_get obj ''_meta'' (JObj []) = JObj meta \<and> opt_key meta ''logLevelName'' is_str"
proof (cases "map_of obj ''_meta''")
  case None
  then show ?thesis by (simp add: dict_get_def opt_key_def)
next
  case (Some v)
  with assms have "meta_ok v" by (simp add: opt_key_def)
  then obtain meta where "v = JObj meta" "opt_key meta ''logLevelName'' is_str"
    by (cases v) auto
  with Some show ?thesis by (simp add: dict_get_def)
qed

text \<open>
  Claim C4, as amended. For every input string \<open>_parse_log_line\<close> never raises: every
  exception inside it yields \<open>None\<close>. On a string that is not JSON, the empty string
  among them, and on JSON that is not an object it returns \<open>None\<close>. On a JSON object
  without the message field \<open>"1"\<close> whose other fields are absent or well-typed it
  returns an event whose message is the empty string.
\<close>

theorem parse_log_line_malformed:
  "(loads lib raw_line = None \<longrightarrow> parse_log_line lib raw_line = None)
   \<and> (parse_log_line_body lib raw_line = Inl e \<longrightarrow> parse_log_line lib raw_line = None)
   \<and> (loads lib raw_line = Some v \<and> \<not> is_dict v \<longrightarrow> parse_log_line lib raw_line = None)
   \<and> (loads lib raw_line = Some (JObj obj) \<and> map_of obj ''1'' = None \<and> log_fields_ok obj
        \<longrightarrow> (\<exists>ev. parse_log_line lib raw_line = Some ev \<and> message ev = ''''))"
proof (intro conjI impI)
  assume "loads lib raw_line = None"
  then show "parse_log_line lib raw_line = None"
    by (simp add: parse_log_line_def parse_log_line_body_def)
next
  assume "parse_log_line_body lib raw_line = Inl e"
  then show "parse_log_line lib raw_line = None"
    by (simp add: parse_log_line_def)
next
  assume "loads lib raw_line = Some v \<and> \<not> is_dict v"
  then show "parse_log_line lib raw_line = None"
    by (cases v) (simp_all add: parse_log_line_def parse_log_line_body_def)
next
  assume a: "loads lib raw_line = Some (JObj obj) \<and> map_of obj ''1'' = None \<and> log_fields_ok obj"
  then obtain meta where m: "dict_get obj ''_meta'' (JObj []) = JObj meta"
    and l: "opt_key meta ''logLevelName'' is_str"
    using meta_of_ok [of obj] by (auto simp: log_fields_ok_def)
  from l obtain lvl where lvl: "level_of meta = Inr lvl"
    using level_of_ok by blast
  from a obtain ts where ts: "time_of obj = Inr ts"
    using time_of_ok [of obj] by (auto simp: log_fields_ok_def)
  from a have msg: "dict_get obj ''1'' (JStr '''') = JStr ''''"
    by (simp add: dict_get_def)
  show "\<exists>ev. parse_log_line lib raw_line = Some ev \<and> message ev = ''''"
    using a m lvl ts msg
    by (simp add: parse_log_line_def parse_log_line_body_def Let_def)
qed

theorem parse_log_line_malformed_witness:
  "parse_log_line empty_obj_lib '''' = None
   \<and> parse_log_line empty_obj_lib ''not json'' = None
   \<and> (\<exists>ev. parse_log_line empty_obj_lib ''{}'' = Some ev \<and> message ev = '''')"
proof -
  have h1: "loads empty_obj_lib '''' = None"
    and h2: "loads empty_obj_lib ''not json'' = None"
    and h3: "loads empty_obj_lib ''{}'' = Some (JObj []) \<and> map_of ([] :: (string \<times> json) list) ''1'' = None
        \<and> log_fields_ok []"
    by (simp_all add: empty_obj_lib_def table_lib_def log_fields_ok_def opt_key_def)
  from parse_log_line_malformed [of empty_obj_lib "''''"] h1
  have "parse_log_line empty_obj_lib '''' = None" by blast
  moreover from parse_log_line_malformed [of empty_obj_lib "''not json''"] h2
  have "parse_log_line empty_obj_lib ''not json'' = None" by blast
  moreover from parse_log_line_malformed [of empty_obj_lib "''{}''" _ _ "[]"] h3
  have "\<exists>ev. parse_log_line empty_obj_lib ''{}'' = Some ev \<and> message ev = ''''" by blast
  ultimately show ?thesis by blast
qed

text \<open>
  The JSON object \<open>{}\<close> has no message field, and is parsed into an event.
\<close>

theorem parse_log_line_missing_message_counterexample:
  "parse_log_line empty_obj_lib ''{}'' =
     Some \<lparr>time = '''', subsystem = ''unknown'', message = '''', level = ''INFO'',
           important = False\<rparr>"
  by (simp add: parse_log_line_def parse_log_line_body_def empty_obj_lib_def table_lib_def
      dict_get_def subsystem_of_def subsystem_try_def level_of_def time_of_def upper_def
      upper_char_def removeprefix_def LOG_IMPORTANT_SUBSYSTEMS_def)

text \<open>
  Claim C5 says that the \<open>important\<close> flag of a parsed event is true if and only if
  its namespace-stripped subsystem is one of model, ratelimit, fallback, error and
  reload, or its level is ERROR. The code strips \<open>gateway/\<close> from the subsystem and
  then looks for \<open>gateway/reload\<close>: an INFO line of the gateway's reload subsystem is
  parsed into an event with subsystem \<open>reload\<close> that is not important.
\<close>

theorem parse_log_line_reload_not_important:
  "parse_log_line reload_lib reload_line =
     Some \<lparr>time = ''2026-01-01 00:00:00'', subsystem = ''reload'',
           message = ''config reloaded'', level = ''INFO'', important = False\<rparr>
   \<and> ''reload'' \<in> spec_important_subsystems"
  by (simp add: parse_log_line_def parse_log_line_body_def reload_lib_def table_lib_def
      reload_line_def reload_name_def reload_obj_def
      dict_get_def subsystem_of_def subsystem_try_def level_of_def time_of_def upper_def
      upper_char_def removeprefix_def LOG_IMPORTANT_SUBSYSTEMS_def spec_important_subsystems_def)

section \<open>Properties of \<open>DataLayer.refresh\<close>\<close>

text \<open>
  Claim C2. For every data layer state, one holding a previously fetched snapshot
  among them, a call of \<open>refresh\<close> in which the model-status fetch returns nothing
  leaves the values of the accessors \<open>rotation\<close> and \<open>default_model\<close> as they were
  before the call. Whatever the fetch returns, the auth profiles are read again: the
  profiles after the call are the list that \<open>read_auth_profiles\<close> returns, an
  exception of that read leaves \<open>refresh\<close>, and the world after the call is the one
  the read leaves.
\<close>

theorem refresh_failed_fetch_keeps_snapshot:
  "(fetch_model_status w = None \<longrightarrow>
        dl_rotation (fst (snd (refresh dl w))) = dl_rotation dl
      \<and> dl_default_model (fst (snd (refresh dl w))) = dl_default_model dl)
   \<and> (fst (read_auth_profiles None w) = Inr ps \<longrightarrow>
        fst (refresh dl w) = None \<and> dl_profiles (fst (snd (refresh dl w))) = ps)
   \<and> (fst (read_auth_profiles None w) = Inl e \<longrightarrow>
        fst (refresh dl w) = Some e \<and> dl_profiles (fst (snd (refresh dl w))) = dl_profiles dl)
   \<and> snd (snd (refresh dl w)) = snd (read_auth_profiles None w)"
  by (cases "read_auth_profiles None w"; cases "fst (read_auth_profiles None w)")
    (auto simp: refresh_def dl_rotation_def dl_default_model_def split: option.splits)

lemma held_layer_default:
  "dl_default_model held_layer = JStr ''google-gemini-cli/gemini-3-flash''"
proof -
  have D: "dict_get SAMPLE_STATUS ''defaultModel'' (JStr '''') = JStr ''google-gemini-cli/gemini-3-flash''"
    by (simp add: SAMPLE_STATUS_def dict_get_def)
  have F: "dict_get SAMPLE_STATUS ''fallbacks'' (JList []) =
      JList (map JStr [''google-gemini-cli/gemini-3-pro-preview'', ''groq/llama-3.3-70b-versatile''])"
    by (simp add: SAMPLE_STATUS_def dict_get_def)
  have S: "sections_ok SAMPLE_STATUS"
    by (simp add: SAMPLE_STATUS_def sections_ok_def opt_key_def)
  from parse_model_status_sections [OF D F S] obtain snap where
    P: "parse_model_status (JObj SAMPLE_STATUS) = Inr snap"
    and Q: "snapshot_default snap = JStr ''google-gemini-cli/gemini-3-flash''"
    by blast
  from P have "fetch_model_status status_up_world = Some snap"
    by (simp add: fetch_model_status_def status_up_world_def dead_world_def)
  moreover have "read_auth_profiles None status_up_world = (Inr [], status_up_world)"
    by (simp add: read_auth_profiles_def status_up_world_def dead_world_def)
  ultimately show ?thesis
    using Q by (simp add: held_layer_def refresh_def dl_default_model_def)
qed

theorem refresh_failed_fetch_keeps_snapshot_witness:
  "fetch_model_status status_down_world = None
   \<and> dl_default_model held_layer = JStr ''google-gemini-cli/gemini-3-flash''
   \<and> dl_rotation (fst (snd (refresh held_layer status_down_world))) = dl_rotation held_layer
   \<and> dl_default_model (fst (snd (refresh held_layer status_down_world))) = dl_default_model held_layer
   \<and> fst (refresh held_layer status_down_world) = None
   \<and> map profile_id (dl_profiles (fst (snd (refresh held_layer status_down_world))))
       = [''groq:manual'', ''google-gemini-cli:bob'']"
proof -
  have f: "fetch_model_status status_down_world = None"
    by (simp add: fetch_model_status_def status_down_world_def dead_world_def)
  obtain ps where r: "fst (read_auth_profiles None status_down_world) = Inr ps"
    and p: "map profile_id ps = [''groq:manual'', ''google-gemini-cli:bob'']"
    by (simp add: read_auth_profiles_def SAMPLE_AUTH_def dict_get_def sample_clock_def
        status_down_world_def dead_world_def auth_entry_def api_key_display_def)
  from refresh_failed_fetch_keeps_snapshot [of status_down_world held_layer ps] f r p
    held_layer_default
  show ?thesis by simp
qed


section \<open>Properties of the event queue and of the tailer\<close>
















lemma tailer_holds_file:
  assumes "\<not> stop_is_set ob" and "readline ob path = Some line"
  shows "fst (tailer_step lib ob (Tailing path, q)) = Tailing path
       \<or> (\<exists>ev. fst (tailer_step lib ob (Tailing path, q)) = Putting path ev)"
  using assms by (auto split: option.splits put_result.splits)

text \<open>
  Claim C8 says that, the path being resolved again in every iteration of the outer
  loop, the tailer leaves the old file after a day rollover and waits for or tails
  the file of the new day. The outer loop is not iterated while the inner loop runs:
  on the day after 2026-01-01, with the file of the new day in place and the old
  file silent, the tailer still holds the file of 2026-01-01 after any number of
  steps, while a tailer at the outer loop would open the file of 2026-01-02.
\<close>

theorem tailer_keeps_old_file_after_rollover:
  "run_tailer lib (replicate n next_day_obs) (Tailing (log_path ''2026-01-01''), q) =
     (Tailing (log_path ''2026-01-01''), q)
   \<and> log_path (today next_day_obs) \<noteq> log_path ''2026-01-01''
   \<and> path_exists next_day_obs (log_path (today next_day_obs))
   \<and> tailer_step lib next_day_obs (Outer, q) = (Tailing (log_path ''2026-01-02''), q)"
proof -
  have "run_tailer lib (replicate n next_day_obs) (Tailing (log_path ''2026-01-01''), q) =
     (Tailing (log_path ''2026-01-01''), q)"
    by (induction n) (simp_all add: run_tailer_def next_day_obs_def)
  then show ?thesis
    by (simp add: next_day_obs_def log_path_def)
qed

section \<open>Properties of \<open>fetch_gateway_status\<close>\<close>

lemma gateway_line_state:
  "gateway_line r line = Inr r' \<Longrightarrow> gw_state r' = gw_state r"
  by (auto simp: gateway_line_def split: if_splits option.splits sum.splits)

lemma fold_err_gateway_state:
  "fold_err gateway_line ls r = Inr r' \<Longrightarrow> gw_state r' = gw_state r"
proof (induction ls arbitrary: r)
  case Nil
  then show ?case by simp
next
  case (Cons l ls)
  then show ?case
    by (auto split: sum.splits dest: gateway_line_state)
qed

text \<open>
  Claim C9, as amended. \<open>fetch_gateway_status\<close> never raises to its caller: when
  either command raises it returns the sentinel dict, whose state is ERR and in which
  each of \<open>pid\<close>, \<open>sessions\<close>, \<open>agents\<close> and \<open>version\<close> is set to the placeholder
  string \<open>?\<close>; every result that is not the sentinel has state RUN.
\<close>

theorem fetch_gateway_status_sentinel:
  "(health_output w = None \<or> version_output w = None \<longrightarrow> fetch_gateway_status w = gateway_err)
   \<and> (fetch_gateway_status w = gateway_err \<or> gw_state (fetch_gateway_status w) = ''RUN'')
   \<and> gw_state gateway_err = ''ERR''
   \<and> gw_pid gateway_err = Some (JStr ''?'')
   \<and> gw_sessions gateway_err = Some (JStr ''?'')
   \<and> gw_agents gateway_err = Some (JStr ''?'')
   \<and> gw_version gateway_err = Some (JStr ''?'')"
proof (intro conjI impI)
  assume "health_output w = None \<or> version_output w = None"
  then show "fetch_gateway_status w = gateway_err"
    by (auto simp: fetch_gateway_status_def split: option.splits sum.splits)
next
  show "fetch_gateway_status w = gateway_err \<or> gw_state (fetch_gateway_status w) = ''RUN''"
    by (auto simp: fetch_gateway_status_def split: option.splits sum.splits
        dest: fold_err_gateway_state)
qed (simp_all add: gateway_err_def)

theorem fetch_gateway_status_sentinel_witness:
  "health_output (dead_world 0) = None
   \<and> fetch_gateway_status (dead_world 0) = gateway_err
   \<and> gw_state (fetch_gateway_status (dead_world 0)) = ''ERR''"
proof -
  have h: "health_output (dead_world 0) = None"
    by (simp add: dead_world_def)
  from fetch_gateway_status_sentinel [of "dead_world 0"] h show ?thesis
    by simp
qed

text \<open>
  With both commands failing, the optional fields of the result are present: each
  holds the string \<open>?\<close>.
\<close>

theorem fetch_gateway_status_placeholders_counterexample:
  "gw_state (fetch_gateway_status (dead_world 0)) = ''ERR''
   \<and> gw_pid (fetch_gateway_status (dead_world 0)) = Some (JStr ''?'')
   \<and> gw_sessions (fetch_gateway_status (dead_world 0)) = Some (JStr ''?'')
   \<and> gw_agents (fetch_gateway_status (dead_world 0)) = Some (JStr ''?'')
   \<and> gw_version (fetch_gateway_status (dead_world 0)) = Some (JStr ''?'')"
  by (simp add: fetch_gateway_status_def dead_world_def gateway_err_def)

end
